theory Spec2Isabelle
  imports Complex_Main
begin

section \<open>Study and wellness tracker: the observation log of main.py\<close>

text \<open>
  The program is one Streamlit script (main.py) that is run from top to bottom at every
  user interaction. It reads the observation table from \<open>data.csv\<close>, appends the
  submitted day in tab 1, derives two indicators in tab 2, builds a four-phase plan in
  tab 3 and exports a report in tab 4.

  Numbers of the table are modelled as reals: the comparisons of the script are exact on
  the values they are given, and the rounding of binary floating point is outside the
  model.
\<close>

subsection \<open>Data model\<close>

text \<open>One row of the table: the five columns written at lines 54-60.\<close>

record observation =
  date :: string
  study_hours :: real
  stress_level :: real
  sleep_hours :: real
  exercise_min :: real

text \<open>A pandas DataFrame: its column names, in order, and its rows, in order.\<close>

record dataframe =
  columns :: "string list"
  rows :: "observation list"

subsection \<open>Burnout label (line 78)\<close>

text \<open>
  \<open>np.where((df['sleep_hours'] < 6) & (df['stress_level'] > 7), 1, 0)\<close>: the two
  columns are compared element by element.
\<close>

definition burnout_risk :: "dataframe \<Rightarrow> nat list" where
  "burnout_risk d =
     map2 (\<lambda>sl st. if sl < 6 \<and> st > 7 then 1 else 0)
       (map sleep_hours (rows d)) (map stress_level (rows d))"

lemma length_burnout_risk: "length (burnout_risk d) = length (rows d)"
  by (simp add: burnout_risk_def)

lemma burnout_risk_nth:
  "i < length (rows d) \<Longrightarrow>
   burnout_risk d ! i =
     (if sleep_hours (rows d ! i) < 6 \<and> stress_level (rows d ! i) > 7 then 1 else 0)"
  by (simp add: burnout_risk_def)

lemma burnout_risk_binary: "set (burnout_risk d) \<subseteq> {0, 1}"
proof
  fix c assume "c \<in> set (burnout_risk d)"
  then obtain i where "i < length (rows d)" "burnout_risk d ! i = c"
    by (auto simp: in_set_conv_nth length_burnout_risk)
  then show "c \<in> {0, 1}"
    by (simp add: burnout_risk_nth split: if_splits)
qed

subsection \<open>The regression of scikit-learn (lines 7, 73, 74)\<close>

text \<open>
  \<open>LinearRegression().fit(X, y)\<close> with one feature column is a library call. It is
  modelled by what the library documents: ordinary least squares with an intercept, on
  centred data, and the minimum-norm solution (slope 0) when the feature column is
  constant. \<open>linear_predict\<close> is \<open>reg.predict([[x]])[0]\<close>.
\<close>

definition mean :: "real list \<Rightarrow> real" where
  "mean xs = sum_list xs / real (length xs)"

record linear_model =
  coef :: real
  intercept :: real

definition LinearRegression_fit :: "real list \<Rightarrow> real list \<Rightarrow> linear_model" where
  "LinearRegression_fit X y =
     (let mx = mean X; my = mean y;
          sxx = (\<Sum>x\<leftarrow>X. (x - mx) * (x - mx));
          sxy = (\<Sum>(x, v)\<leftarrow>zip X y. (x - mx) * (v - my));
          a = (if sxx = 0 then 0 else sxy / sxx)
      in \<lparr>coef = a, intercept = my - a * mx\<rparr>)"

definition linear_predict :: "linear_model \<Rightarrow> real \<Rightarrow> real" where
  "linear_predict m x = coef m * x + intercept m"

text \<open>
  The sum of squared residuals of the line \<open>a * study_hours + b\<close> over the whole log:
  the quantity that an ordinary least-squares fit of stress on study hours minimises.
\<close>

definition squared_error :: "observation list \<Rightarrow> real \<Rightarrow> real \<Rightarrow> real" where
  "squared_error rs a b =
     (\<Sum>r\<leftarrow>rs. (stress_level r - (a * study_hours r + b)) * (stress_level r - (a * study_hours r + b)))"

subsection \<open>The decision tree of scikit-learn (lines 8, 82, 83)\<close>

text \<open>
  \<open>DecisionTreeClassifier().fit(X, y)\<close> and \<open>tree.predict\<close> are library calls. They
  are modelled by the algorithm the library documents for its default parameters: CART
  with the Gini criterion and the best splitter, no depth limit, \<open>min_samples_split = 2\<close>,
  \<open>min_samples_leaf = 1\<close>. A node becomes a leaf when it has fewer than two samples, when
  all its labels agree, or when no feature separates its samples. The library draws the
  order in which it visits the features of a node at random (\<open>random_state = None\<close>);
  that order is the parameter \<open>ord\<close>. The library's conversion of the features to 32-bit
  floats and its tolerance of \<open>1e-7\<close> between feature values are outside the model.
\<close>

type_synonym sample = "real list \<times> nat"

datatype tree = Leaf nat | Node nat real tree tree

text \<open>Prediction walks down: samples with \<open>x[feature] <= threshold\<close> go left.\<close>

fun tree_predict :: "tree \<Rightarrow> real list \<Rightarrow> nat" where
  "tree_predict (Leaf c) x = c"
| "tree_predict (Node f t l r) x =
     (if x ! f \<le> t then tree_predict l x else tree_predict r x)"

text \<open>
  The class of a leaf: the most frequent label of its samples, the smallest such label
  on a tie (\<open>argmax\<close> over the sorted classes returns the first maximum).
\<close>

definition majority :: "nat list \<Rightarrow> nat" where
  "majority ys =
     (case sort (remdups ys) of
        [] \<Rightarrow> 0
      | c # cs \<Rightarrow> fold (\<lambda>d best. if count_list ys d > count_list ys best then d else best) cs c)"

text \<open>
  The Gini criterion's proxy for the impurity improvement of a split: the sum of the
  squared class counts of each side over the size of that side.
\<close>

definition sq_counts :: "nat list \<Rightarrow> real" where
  "sq_counts ys = (\<Sum>c\<leftarrow>remdups ys. real (count_list ys c) * real (count_list ys c))"

definition proxy_improvement :: "nat list \<Rightarrow> nat list \<Rightarrow> real" where
  "proxy_improvement ls rs = sq_counts ls / real (length ls) + sq_counts rs / real (length rs)"

text \<open>
  The candidate thresholds of a feature: the midpoints between consecutive distinct
  values, in ascending order. A constant feature has none.
\<close>

definition thresholds :: "real list \<Rightarrow> real list" where
  "thresholds vs = (let us = sort (remdups vs) in map2 (\<lambda>a b. a / 2 + b / 2) us (tl us))"

definition candidates :: "nat list \<Rightarrow> sample list \<Rightarrow> (nat \<times> real) list" where
  "candidates fs S =
     concat (map (\<lambda>f. map (\<lambda>t. (f, t)) (thresholds (map (\<lambda>s. fst s ! f) S))) fs)"

definition left_of :: "nat \<times> real \<Rightarrow> sample list \<Rightarrow> sample list" where
  "left_of c S = filter (\<lambda>s. fst s ! fst c \<le> snd c) S"

definition right_of :: "nat \<times> real \<Rightarrow> sample list \<Rightarrow> sample list" where
  "right_of c S = filter (\<lambda>s. \<not> fst s ! fst c \<le> snd c) S"

definition score :: "sample list \<Rightarrow> nat \<times> real \<Rightarrow> real" where
  "score S c = proxy_improvement (map snd (left_of c S)) (map snd (right_of c S))"

text \<open>The splitter keeps the first candidate that is strictly better than all before it.\<close>

fun best_of :: "sample list \<Rightarrow> (nat \<times> real) list \<Rightarrow> (nat \<times> real) option \<Rightarrow> (nat \<times> real) option" where
  "best_of S [] best = best"
| "best_of S (c # cs) best =
     best_of S cs
       (case best of
          None \<Rightarrow> Some c
        | Some b \<Rightarrow> if score S c > score S b then Some c else Some b)"

definition best_split :: "nat list \<Rightarrow> sample list \<Rightarrow> (nat \<times> real) option" where
  "best_split fs S = best_of S (candidates fs S) None"

lemma consecutive_less:
  fixes us :: "real list"
  shows "sorted us \<Longrightarrow> distinct us \<Longrightarrow> (a, b) \<in> set (zip us (tl us)) \<Longrightarrow> a < b"
proof (induction us)
  case Nil
  then show ?case by simp
next
  case (Cons x xs)
  show ?case
  proof (cases xs)
    case Nil
    with Cons.prems show ?thesis by simp
  next
    case (Cons y ys)
    with Cons.prems Cons.IH show ?thesis by auto
  qed
qed

lemma thresholds_between:
  assumes "t \<in> set (thresholds vs)"
  shows "\<exists>a\<in>set vs. \<exists>b\<in>set vs. a < t \<and> t < b"
proof -
  let ?us = "sort (remdups vs)"
  from assms obtain a b where ab: "(a, b) \<in> set (zip ?us (tl ?us))" and t: "t = a / 2 + b / 2"
    by (auto simp: thresholds_def Let_def)
  have "a < b"
    using ab by (intro consecutive_less [of ?us]) simp_all
  moreover have "a \<in> set vs"
    using set_zip_leftD [OF ab] by simp
  moreover have "b \<in> set ?us"
    using set_zip_rightD [OF ab] by (cases ?us) auto
  then have "b \<in> set vs" by simp
  ultimately show ?thesis using t by (intro bexI [of _ a] bexI [of _ b]) auto
qed

lemma candidates_separate:
  assumes "c \<in> set (candidates fs S)"
  shows "\<exists>s1\<in>set S. \<exists>s2\<in>set S. fst s1 ! fst c \<le> snd c \<and> \<not> fst s2 ! fst c \<le> snd c"
proof -
  from assms have "snd c \<in> set (thresholds (map (\<lambda>s. fst s ! fst c) S))"
    by (auto simp: candidates_def)
  from thresholds_between [OF this]
  obtain s1 s2 where "s1 \<in> set S" "s2 \<in> set S"
    "fst s1 ! fst c < snd c" "snd c < fst s2 ! fst c"
    by auto
  then show ?thesis
    by (intro bexI [of _ s1] bexI [of _ s2]) auto
qed

lemma best_of_mem:
  "best_of S cs best = Some c \<Longrightarrow> c \<in> set cs \<or> best = Some c"
  by (induction cs arbitrary: best) (fastforce split: option.splits if_splits)+

lemma best_split_mem: "best_split fs S = Some c \<Longrightarrow> c \<in> set (candidates fs S)"
  using best_of_mem [of S "candidates fs S" None c] by (simp add: best_split_def)

lemma left_of_smaller: "best_split fs S = Some c \<Longrightarrow> length (left_of c S) < length S"
  using candidates_separate [OF best_split_mem] unfolding left_of_def
  by (metis length_filter_less)

lemma right_of_smaller: "best_split fs S = Some c \<Longrightarrow> length (right_of c S) < length S"
  using candidates_separate [OF best_split_mem] unfolding right_of_def
  by (metis length_filter_less)

text \<open>
  The depth-first builder. \<open>ord S\<close> is the order in which the features are visited at
  the node that holds the samples \<open>S\<close>.
\<close>

function build :: "(sample list \<Rightarrow> nat list) \<Rightarrow> sample list \<Rightarrow> tree" where
  "build ord S =
     (if length S < 2 \<or> length (remdups (map snd S)) \<le> 1 then Leaf (majority (map snd S))
      else case best_split (ord S) S of
             None \<Rightarrow> Leaf (majority (map snd S))
           | Some c \<Rightarrow> Node (fst c) (snd c) (build ord (left_of c S)) (build ord (right_of c S)))"
  by pat_completeness auto
termination
  by (relation "measure (\<lambda>(ord, S). length S)")
    (auto simp: left_of_smaller right_of_smaller)

declare build.simps [simp del]

definition DecisionTreeClassifier_fit ::
  "(sample list \<Rightarrow> nat list) \<Rightarrow> real list list \<Rightarrow> nat list \<Rightarrow> tree" where
  "DecisionTreeClassifier_fit ord X y = build ord (zip X y)"

subsection \<open>Formatting numbers and dates\<close>

text \<open>Python's \<open>str\<close> of an integer, as the f-strings of lines 103-107 use it.\<close>

definition digit_char :: "nat \<Rightarrow> char" where
  "digit_char n = ''0123456789'' ! n"

fun str_nat :: "nat \<Rightarrow> string" where
  "str_nat n = (if n < 10 then [digit_char n] else str_nat (n div 10) @ [digit_char (n mod 10)])"

declare str_nat.simps [simp del]

definition str_int :: "int \<Rightarrow> string" where
  "str_int i = (if i < 0 then CHR ''-'' # str_nat (nat (- i)) else str_nat (nat i))"

text \<open>
  \<open>datetime.date.today().strftime('%Y-%m-%d')\<close> (line 55). The C library writes the
  year as a decimal number without padding (a year below 1000 has fewer than four
  digits), and the month and the day on two digits, padded with zeros.
\<close>

record calendar_date =
  year :: nat
  month :: nat
  day :: nat

definition zfill :: "nat \<Rightarrow> string \<Rightarrow> string" where
  "zfill w s = replicate (w - length s) (CHR ''0'') @ s"

definition strftime :: "calendar_date \<Rightarrow> string" where
  "strftime d =
     str_nat (year d) @ ''-'' @ zfill 2 (str_nat (month d)) @ ''-'' @ zfill 2 (str_nat (day d))"







subsection \<open>Files, the environment and the user's inputs\<close>

text \<open>
  The files of the working directory. pandas writes a table as CSV text and parses it
  back; the content of a CSV file is modelled by the table it denotes, and a file that
  pandas cannot parse by \<open>Unreadable\<close>.
\<close>

datatype file_content = Csv dataframe | Unreadable

type_synonym filesystem = "string \<rightharpoonup> file_content"

datatype error = FileNotFoundError | ParserError | NameError | TypeError | StreamlitAPIException

definition DATA_FILE :: string where
  "DATA_FILE = ''data.csv''"

definition read_csv :: "filesystem \<Rightarrow> string \<Rightarrow> error + dataframe" where
  "read_csv fs p =
     (case fs p of
        None \<Rightarrow> Inl FileNotFoundError
      | Some Unreadable \<Rightarrow> Inl ParserError
      | Some (Csv d) \<Rightarrow> Inr d)"

definition to_csv :: "dataframe \<Rightarrow> string \<Rightarrow> filesystem \<Rightarrow> filesystem" where
  "to_csv d p fs = fs(p \<mapsto> Csv d)"

text \<open>A working directory with no file in it.\<close>

definition empty_dir :: filesystem where
  "empty_dir = Map.empty"

text \<open>
  What the script takes from outside: today's date, the text generator (line 25), the
  order in which the tree library visits features, and the number of days between today
  and the earliest date of the log (line 118, computed by the date libraries, which
  raise when they cannot parse a date or subtract the two values).
\<close>

record env =
  today :: calendar_date
  generator :: "string \<Rightarrow> string"
  feature_order :: "sample list \<Rightarrow> nat list"
  elapsed_days :: "string list \<Rightarrow> error + int"

text \<open>The widgets' values at one run of the script (lines 48-52, 95-100, 126).\<close>

record ui =
  ui_study_hours :: real
  ui_stress_level :: int
  ui_sleep_hours :: real
  ui_exercise_min :: int
  submitted :: bool
  exam :: string
  days_left :: int
  strong_subjects :: string
  weak_subjects :: string
  generate_plan :: bool
  generate_pdf :: bool

text \<open>What Streamlit is asked to display, in order.\<close>

datatype event =
    Header string
  | Warning string
  | Success string
  | Write string
  | Write_pred_stress real
  | Plotly_chart string
  | Text_area string string
  | Progress_bar real
  | Write_progress real

text \<open>
  The state of one run: the global table \<open>df\<close>, the files, what was displayed, and the
  exception that ended the run, if any.
\<close>

record state =
  df :: dataframe
  files :: filesystem
  shown :: "event list"
  raised :: "error option"

definition display :: "event \<Rightarrow> state \<Rightarrow> state" where
  "display ev s = s\<lparr>shown := shown s @ [ev]\<rparr>"

subsection \<open>Loading the table (lines 16-22)\<close>

definition COLUMNS :: "string list" where
  "COLUMNS = [''date'', ''study_hours'', ''stress_level'', ''sleep_hours'', ''exercise_min'']"

definition load :: "filesystem \<Rightarrow> state" where
  "load fs =
     (case read_csv fs DATA_FILE of
        Inr d \<Rightarrow> \<lparr>df = d, files = fs, shown = [], raised = None\<rparr>
      | Inl FileNotFoundError \<Rightarrow>
          (let d = \<lparr>columns = COLUMNS, rows = []\<rparr>
           in \<lparr>df = d, files = to_csv d DATA_FILE fs, shown = [], raised = None\<rparr>)
      | Inl err \<Rightarrow> \<lparr>df = \<lparr>columns = [], rows = []\<rparr>, files = fs, shown = [], raised = Some err\<rparr>)"

subsection \<open>Tab 1: the daily form (lines 45-63)\<close>

text \<open>\<open>pd.concat([df, new_data], ignore_index=True)\<close>: the rows of the second after the
  rows of the first, over the union of the columns.\<close>

definition pd_concat :: "dataframe \<Rightarrow> dataframe \<Rightarrow> dataframe" where
  "pd_concat a b =
     \<lparr>columns = columns a @ filter (\<lambda>c. c \<notin> set (columns a)) (columns b),
      rows = rows a @ rows b\<rparr>"

definition new_row :: "env \<Rightarrow> ui \<Rightarrow> observation" where
  "new_row e u =
     \<lparr>date = strftime (today e),
      study_hours = ui_study_hours u,
      stress_level = of_int (ui_stress_level u),
      sleep_hours = ui_sleep_hours u,
      exercise_min = of_int (ui_exercise_min u)\<rparr>"

definition tab1 :: "env \<Rightarrow> ui \<Rightarrow> state \<Rightarrow> state" where
  "tab1 e u s =
     (let s1 = display (Header ''Daily Input'') s in
      if submitted u then
        let new_data = \<lparr>columns = COLUMNS, rows = [new_row e u]\<rparr>;
            d = pd_concat (df s1) new_data;
            s2 = s1\<lparr>df := d, files := to_csv d DATA_FILE (files s1)\<rparr>
        in display (Success ''Data saved! Check Analysis tab for insights.'') s2
      else s1)"

subsection \<open>Tab 2: analysis (lines 65-91)\<close>

text \<open>Lines 71-74: the regression of stress on study hours over the whole table,
  evaluated at 10 study hours.\<close>

definition predict_stress :: "dataframe \<Rightarrow> real" where
  "predict_stress d =
     (let X = map study_hours (rows d);
          y = map stress_level (rows d);
          reg = LinearRegression_fit X y
      in linear_predict reg 10)"

text \<open>Line 78 assigns the column \<open>burnout_risk\<close> of the table in memory; its values
  are \<open>burnout_risk\<close> above.\<close>

definition assign_column :: "string \<Rightarrow> dataframe \<Rightarrow> dataframe" where
  "assign_column name d =
     d\<lparr>columns := (if name \<in> set (columns d) then columns d else columns d @ [name])\<rparr>"

text \<open>
  Lines 79-83: the tree is fit on the columns sleep, stress, study (in that order) when
  the labels hold more than one class (\<open>len(set(y_tree)) > 1\<close>), and asked about the
  values of the form. \<open>None\<close> stands for no prediction.
\<close>

definition predict_burnout :: "env \<Rightarrow> ui \<Rightarrow> dataframe \<Rightarrow> nat option" where
  "predict_burnout e u d =
     (let X_tree = map (\<lambda>r. [sleep_hours r, stress_level r, study_hours r]) (rows d);
          y_tree = burnout_risk d
      in if length (remdups y_tree) > 1 then
           let tree = DecisionTreeClassifier_fit (feature_order e) X_tree y_tree
           in Some (tree_predict tree
                      [ui_sleep_hours u, of_int (ui_stress_level u), ui_study_hours u])
         else None)"

definition burnout_message :: "nat \<Rightarrow> string" where
  "burnout_message risk =
     ''Burnout Risk Today: '' @ (if risk \<noteq> 0 then ''High! Rest up.'' else ''Low. Keep going!'')"

text \<open>\<open>Write_pred_stress v\<close> is the line "Predicted stress if studying 10 hours: v/10", with
  \<open>v\<close> printed to one decimal.\<close>

definition tab2 :: "env \<Rightarrow> ui \<Rightarrow> state \<Rightarrow> state" where
  "tab2 e u s =
     (let s1 = display (Header ''Analysis & Insights'') s in
      if length (rows (df s1)) < 2 then
        display (Warning ''Enter at least 2 days of data for analysis.'') s1
      else
        let s2 = display (Write_pred_stress (predict_stress (df s1))) s1;
            s3 = s2\<lparr>df := assign_column ''burnout_risk'' (df s2)\<rparr>;
            s4 = (case predict_burnout e u (df s3) of
                    Some risk \<Rightarrow> display (Write (burnout_message risk)) s3
                  | None \<Rightarrow> s3);
            s5 = display (Plotly_chart ''Stress Over Time'') s4
        in display (Plotly_chart ''Stress vs Study Hours'') s5)"

subsection \<open>Tab 3: the study plan (lines 93-122)\<close>

definition NL :: string where
  "NL = [CHR 0x0A]"

definition plan_text :: "env \<Rightarrow> ui \<Rightarrow> string" where
  "plan_text e u =
     (let phases = days_left u div 4;
          plan = ''Personalized '' @ str_int (days_left u) @ ''-Day Plan for '' @ exam u @ '':'' @ NL;
          plan = plan @ ''Days 1-'' @ str_int phases @ '': Focus on strong subjects (''
                   @ strong_subjects u @ '') + Basics & PYQs'' @ NL;
          plan = plan @ ''Days '' @ str_int (phases + 1) @ ''-'' @ str_int (2 * phases)
                   @ '': Tackle weak subjects ('' @ weak_subjects u @ '') + Drills'' @ NL;
          plan = plan @ ''Days '' @ str_int (2 * phases + 1) @ ''-'' @ str_int (3 * phases)
                   @ '': Mixed mocks + Review'' @ NL;
          plan = plan @ ''Days '' @ str_int (3 * phases + 1) @ ''-'' @ str_int (days_left u)
                   @ '': Full revision + Rest'' @ NL;
          prompt = ''Generate 3 short wellness tips for a student studying ''
                   @ str_int (days_left u) @ '' days for Olympiad, focusing on stress and health.'';
          tips = generator e prompt
      in plan @ NL @ ''Health Reminders:'' @ NL @ tips)"

text \<open>One line of the schedule: the days \<open>a\<close> to \<open>b\<close> and what they are for.\<close>

definition phase_line :: "int \<Rightarrow> int \<Rightarrow> string \<Rightarrow> string" where
  "phase_line a b what = ''Days '' @ str_int a @ ''-'' @ str_int b @ '': '' @ what @ NL"

text \<open>
  The widget of line 96 returns an integer of at least 1, so the division of line 118
  has a non-zero divisor. \<open>st.progress\<close> refuses a value below 0.
\<close>

definition tab3 :: "env \<Rightarrow> ui \<Rightarrow> state \<Rightarrow> state" where
  "tab3 e u s =
     (let s1 = display (Header ''Study Pathway Generator'') s in
      if generate_plan u then
        let s2 = display (Text_area ''Your Plan'' (plan_text e u)) s1 in
        if length (rows (df s2)) > 0 then
          case elapsed_days e (map date (rows (df s2))) of
            Inl err \<Rightarrow> s2\<lparr>raised := Some err\<rparr>
          | Inr days \<Rightarrow>
              let progress = real_of_int days / real_of_int (days_left u) * 100;
                  bar = min (progress / 100) 1
              in if bar < 0 then s2\<lparr>raised := Some StreamlitAPIException\<rparr>
                 else display (Write_progress progress) (display (Progress_bar bar) s2)
        else display (Write ''No data available for progress tracking.'') s2
      else s1)"

subsection \<open>Tab 4: the report (lines 124-141)\<close>

text \<open>
  The canvas of line 128 and its two strings stay in memory until \<open>c.save()\<close>. Line 133
  calls \<open>plt.figure()\<close>, and the script never binds the name \<open>plt\<close> (lines 1-14 import no
  plotting module under it): the run ends there with a \<open>NameError\<close>, before anything is
  written.
\<close>

definition tab4 :: "ui \<Rightarrow> state \<Rightarrow> state" where
  "tab4 u s =
     (let s1 = display (Header ''Export Report as PDF'') s in
      if generate_pdf u then s1\<lparr>raised := Some NameError\<rparr> else s1)"

subsection \<open>One run of the script, and a session of runs\<close>

text \<open>An uncaught exception ends the run: the stages after it do nothing.\<close>

definition running :: "(state \<Rightarrow> state) \<Rightarrow> state \<Rightarrow> state" where
  "running stage s = (case raised s of None \<Rightarrow> stage s | Some err \<Rightarrow> s)"

text \<open>Lines 24-43 (the generator's set-up, the title, the icons, the quote) display only
  and are left out.\<close>

definition script :: "env \<Rightarrow> ui \<Rightarrow> filesystem \<Rightarrow> state" where
  "script e u fs =
     running (tab4 u) (running (tab3 e u) (running (tab2 e u) (running (tab1 e u) (load fs))))"

text \<open>Streamlit runs the script again at every interaction, on the files the run before
  left.\<close>

fun session :: "(env \<times> ui) list \<Rightarrow> filesystem \<Rightarrow> filesystem" where
  "session [] fs = fs"
| "session (i # is) fs = session is (files (script (fst i) (snd i) fs))"

text \<open>The rows that the submissions of a session append, in order.\<close>

definition appended :: "(env \<times> ui) list \<Rightarrow> observation list" where
  "appended is = map (\<lambda>i. new_row (fst i) (snd i)) (filter (\<lambda>i. submitted (snd i)) is)"

subsection \<open>Concrete inputs\<close>

text \<open>An environment, two submissions and a run that submits nothing but presses both
  buttons, used to evaluate the script.\<close>

definition sample_env :: env where
  "sample_env =
     \<lparr>today = \<lparr>year = 2025, month = 3, day = 7\<rparr>,
      generator = (\<lambda>prompt. ''Sleep well.''),
      feature_order = (\<lambda>S. [0, 1, 2]),
      elapsed_days = (\<lambda>dates. Inr 1)\<rparr>"



definition day1_ui :: ui where
  "day1_ui =
     \<lparr>ui_study_hours = 2, ui_stress_level = 3, ui_sleep_hours = 8, ui_exercise_min = 20,
      submitted = True, exam = ''IOQM'', days_left = 20, strong_subjects = ''Algebra'',
      weak_subjects = ''Number Theory'', generate_plan = False, generate_pdf = False\<rparr>"

definition day2_ui :: ui where
  "day2_ui =
     \<lparr>ui_study_hours = 8, ui_stress_level = 9, ui_sleep_hours = 4, ui_exercise_min = 0,
      submitted = True, exam = ''IOQM'', days_left = 20, strong_subjects = ''Algebra'',
      weak_subjects = ''Number Theory'', generate_plan = False, generate_pdf = False\<rparr>"

definition quiet_ui :: ui where
  "quiet_ui =
     \<lparr>ui_study_hours = 8, ui_stress_level = 9, ui_sleep_hours = 4, ui_exercise_min = 0,
      submitted = False, exam = ''IOQM'', days_left = 20, strong_subjects = ''Algebra'',
      weak_subjects = ''Number Theory'', generate_plan = True, generate_pdf = True\<rparr>"

text \<open>The log of two days, and a state of the script that has loaded it.\<close>

definition day1_row :: observation where
  "day1_row =
     \<lparr>date = ''2025-03-06'', study_hours = 2, stress_level = 3, sleep_hours = 8, exercise_min = 20\<rparr>"

definition day2_row :: observation where
  "day2_row =
     \<lparr>date = ''2025-03-07'', study_hours = 8, stress_level = 9, sleep_hours = 4, exercise_min = 0\<rparr>"

definition two_day_log :: dataframe where
  "two_day_log = \<lparr>columns = COLUMNS, rows = [day1_row, day2_row]\<rparr>"

definition two_day_state :: state where
  "two_day_state =
     \<lparr>df = two_day_log, files = empty_dir(DATA_FILE \<mapsto> Csv two_day_log), shown = [], raised = None\<rparr>"

text \<open>A directory whose data file holds the empty table.\<close>

definition fresh_dir :: filesystem where
  "fresh_dir = empty_dir(DATA_FILE \<mapsto> Csv \<lparr>columns = COLUMNS, rows = []\<rparr>)"

section \<open>Properties\<close>

subsection \<open>The burnout label\<close>

text \<open>
  C2: for every historical row, the derived burnout label is 1 if and only if the row's
  sleep_hours is strictly below 6 and its stress_level strictly above 7, and 0 otherwise.
  In particular the rows (sleep 5.9, stress 8), (sleep 6, stress 8), (sleep 5, stress 7)
  and (sleep 5, stress 7.1) are labelled 1, 0, 0 and 1.
\<close>

theorem burnout_label_rule:
  assumes "i < length (rows d)"
  shows "(burnout_risk d ! i = 1 \<longleftrightarrow> sleep_hours (rows d ! i) < 6 \<and> stress_level (rows d ! i) > 7)
       \<and> (burnout_risk d ! i = 0 \<longleftrightarrow> \<not> (sleep_hours (rows d ! i) < 6 \<and> stress_level (rows d ! i) > 7))
       \<and> burnout_risk
            \<lparr>columns = cs,
             rows = [\<lparr>date = d1, study_hours = h1, stress_level = 8, sleep_hours = 5.9, exercise_min = x1\<rparr>,
                     \<lparr>date = d2, study_hours = h2, stress_level = 8, sleep_hours = 6, exercise_min = x2\<rparr>,
                     \<lparr>date = d3, study_hours = h3, stress_level = 7, sleep_hours = 5, exercise_min = x3\<rparr>,
                     \<lparr>date = d4, study_hours = h4, stress_level = 7.1, sleep_hours = 5, exercise_min = x4\<rparr>]\<rparr>
           = [1, 0, 0, 1]"
proof (intro conjI)
  show "burnout_risk d ! i = 1 \<longleftrightarrow> sleep_hours (rows d ! i) < 6 \<and> stress_level (rows d ! i) > 7"
    using assms by (simp add: burnout_risk_nth)
  show "burnout_risk d ! i = 0 \<longleftrightarrow> \<not> (sleep_hours (rows d ! i) < 6 \<and> stress_level (rows d ! i) > 7)"
    using assms by (simp add: burnout_risk_nth)
  show "burnout_risk
            \<lparr>columns = cs,
             rows = [\<lparr>date = d1, study_hours = h1, stress_level = 8, sleep_hours = 5.9, exercise_min = x1\<rparr>,
                     \<lparr>date = d2, study_hours = h2, stress_level = 8, sleep_hours = 6, exercise_min = x2\<rparr>,
                     \<lparr>date = d3, study_hours = h3, stress_level = 7, sleep_hours = 5, exercise_min = x3\<rparr>,
                     \<lparr>date = d4, study_hours = h4, stress_level = 7.1, sleep_hours = 5, exercise_min = x4\<rparr>]\<rparr>
           = [1, 0, 0, 1]"
    by (simp add: burnout_risk_def)
qed

theorem burnout_label_rule_witness:
  "(1::nat) < length (rows \<lparr>columns = COLUMNS,
        rows = [\<lparr>date = ''2025-03-06'', study_hours = 2, stress_level = 3, sleep_hours = 8, exercise_min = 20\<rparr>,
                \<lparr>date = ''2025-03-07'', study_hours = 8, stress_level = 9, sleep_hours = 4, exercise_min = 0\<rparr>]\<rparr>)
   \<and> burnout_risk \<lparr>columns = COLUMNS,
        rows = [\<lparr>date = ''2025-03-06'', study_hours = 2, stress_level = 3, sleep_hours = 8, exercise_min = 20\<rparr>,
                \<lparr>date = ''2025-03-07'', study_hours = 8, stress_level = 9, sleep_hours = 4, exercise_min = 0\<rparr>]\<rparr> ! 1 = 1"
  using burnout_label_rule [of 1 "\<lparr>columns = COLUMNS,
        rows = [\<lparr>date = ''2025-03-06'', study_hours = 2, stress_level = 3, sleep_hours = 8, exercise_min = 20\<rparr>,
                \<lparr>date = ''2025-03-07'', study_hours = 8, stress_level = 9, sleep_hours = 4, exercise_min = 0\<rparr>]\<rparr>"]
  by simp

subsection \<open>What each stage leaves unchanged\<close>

lemma files_display [simp]: "files (display ev s) = files s"
  by (simp add: display_def)

lemma raised_display [simp]: "raised (display ev s) = raised s"
  by (simp add: display_def)

lemma df_display [simp]: "df (display ev s) = df s"
  by (simp add: display_def)

lemma shown_display [simp]: "shown (display ev s) = shown s @ [ev]"
  by (simp add: display_def)

lemma rows_assign_column [simp]: "rows (assign_column name d) = rows d"
  by (simp add: assign_column_def)

lemma burnout_risk_assign_column [simp]: "burnout_risk (assign_column name d) = burnout_risk d"
  by (simp add: burnout_risk_def)

lemma predict_burnout_assign_column [simp]:
  "predict_burnout e u (assign_column name d) = predict_burnout e u d"
  by (simp add: predict_burnout_def)

lemma files_tab2: "files (tab2 e u s) = files s"
  by (simp add: tab2_def Let_def split: option.splits)

lemma raised_tab2: "raised (tab2 e u s) = raised s"
  by (simp add: tab2_def Let_def split: option.splits)

lemma files_tab3: "files (tab3 e u s) = files s"
  by (simp add: tab3_def Let_def split: sum.splits)

lemma files_tab4: "files (tab4 u s) = files s"
  by (simp add: tab4_def Let_def)

lemma files_running: "(\<And>s. files (stage s) = files s) \<Longrightarrow> files (running stage s) = files s"
  by (simp add: running_def split: option.splits)

lemma files_tab1:
  "files (tab1 e u s) =
     (if submitted u
      then to_csv (pd_concat (df s) \<lparr>columns = COLUMNS, rows = [new_row e u]\<rparr>) DATA_FILE (files s)
      else files s)"
  by (simp add: tab1_def Let_def)

lemma files_script:
  "files (script e u fs) =
     (if raised (load fs) = None then files (tab1 e u (load fs)) else files (load fs))"
  by (simp add: script_def files_running files_tab2 files_tab3 files_tab4)
     (simp add: running_def split: option.splits)

lemma load_present:
  "fs DATA_FILE = Some (Csv d) \<Longrightarrow> load fs = \<lparr>df = d, files = fs, shown = [], raised = None\<rparr>"
  by (simp add: load_def read_csv_def)

lemma load_absent:
  "fs DATA_FILE = None \<Longrightarrow>
   load fs = \<lparr>df = \<lparr>columns = COLUMNS, rows = []\<rparr>,
              files = fs(DATA_FILE \<mapsto> Csv \<lparr>columns = COLUMNS, rows = []\<rparr>),
              shown = [], raised = None\<rparr>"
  by (simp add: load_def read_csv_def to_csv_def Let_def)

lemma load_unreadable:
  "fs DATA_FILE = Some Unreadable \<Longrightarrow>
   load fs = \<lparr>df = \<lparr>columns = [], rows = []\<rparr>, files = fs, shown = [], raised = Some ParserError\<rparr>"
  by (simp add: load_def read_csv_def)


subsection \<open>Loading\<close>

text \<open>
  C5: if the persisted data file is absent at startup, load produces an empty table with
  exactly the five fixed columns (date, study_hours, stress_level, sleep_hours,
  exercise_min), writes that empty table to the persisted file, and raises no error. A
  present but malformed file is not handled: the read error ends the run.
\<close>

theorem load_missing_or_malformed:
  "(fs DATA_FILE = None \<longrightarrow>
      load fs =
        \<lparr>df = \<lparr>columns = [''date'', ''study_hours'', ''stress_level'', ''sleep_hours'', ''exercise_min''],
               rows = []\<rparr>,
         files = fs(DATA_FILE \<mapsto>
                   Csv \<lparr>columns = [''date'', ''study_hours'', ''stress_level'', ''sleep_hours'', ''exercise_min''],
                        rows = []\<rparr>),
         shown = [], raised = None\<rparr>)
   \<and> (fs DATA_FILE = Some Unreadable \<longrightarrow>
        raised (load fs) = Some ParserError \<and> files (load fs) = fs \<and> script e u fs = load fs)"
proof (intro conjI impI)
  assume "fs DATA_FILE = None"
  then show "load fs =
        \<lparr>df = \<lparr>columns = [''date'', ''study_hours'', ''stress_level'', ''sleep_hours'', ''exercise_min''],
               rows = []\<rparr>,
         files = fs(DATA_FILE \<mapsto>
                   Csv \<lparr>columns = [''date'', ''study_hours'', ''stress_level'', ''sleep_hours'', ''exercise_min''],
                        rows = []\<rparr>),
         shown = [], raised = None\<rparr>"
    by (simp add: load_absent COLUMNS_def)
next
  assume u: "fs DATA_FILE = Some Unreadable"
  show "raised (load fs) = Some ParserError" using u by (simp add: load_unreadable)
  show "files (load fs) = fs" using u by (simp add: load_unreadable)
  show "script e u fs = load fs"
    using u by (simp add: script_def running_def load_unreadable)
qed

theorem load_missing_or_malformed_witness:
  "empty_dir DATA_FILE = None
   \<and> df (load empty_dir) =
        \<lparr>columns = [''date'', ''study_hours'', ''stress_level'', ''sleep_hours'', ''exercise_min''], rows = []\<rparr>
   \<and> files (load empty_dir) DATA_FILE =
        Some (Csv \<lparr>columns = [''date'', ''study_hours'', ''stress_level'', ''sleep_hours'', ''exercise_min''], rows = []\<rparr>)
   \<and> raised (load empty_dir) = None
   \<and> (empty_dir(DATA_FILE \<mapsto> Unreadable)) DATA_FILE = Some Unreadable
   \<and> raised (load (empty_dir(DATA_FILE \<mapsto> Unreadable))) = Some ParserError"
  using load_missing_or_malformed [of empty_dir]
    load_missing_or_malformed [of "empty_dir(DATA_FILE \<mapsto> Unreadable)"]
  by (simp add: empty_dir_def)

subsection \<open>Who writes the data file\<close>

text \<open>
  C6 as stated, "append is the only operation that writes to the persisted observation
  data file", fails for load: in a directory without the data file, load writes it
  (line 22).
\<close>

theorem load_writes_data_file_counterexample:
  "empty_dir DATA_FILE = None \<and>
   files (load empty_dir) DATA_FILE = Some (Csv \<lparr>columns = COLUMNS, rows = []\<rparr>)"
  by (simp add: empty_dir_def load_absent)

text \<open>
  C6, amended: apart from load, which creates the data file with the empty five-column
  table when it is absent, append is the only operation that writes to the persisted
  observation data file. The analysis of tab 2 (stress prediction, burnout prediction,
  charts), the plan generation of tab 3 and the PDF export of tab 4 leave every file
  unchanged, tab 1 without a submission too, and load leaves an existing data file
  unchanged; a run without a submission on an existing data file changes no file.
\<close>

theorem only_append_and_first_load_write:
  "files (tab2 e u s) = files s
   \<and> files (tab3 e u s) = files s
   \<and> files (tab4 u s) = files s
   \<and> (\<not> submitted u \<longrightarrow> files (tab1 e u s) = files s)
   \<and> (fs DATA_FILE \<noteq> None \<longrightarrow> files (load fs) = fs)
   \<and> (fs DATA_FILE = None \<longrightarrow>
        files (load fs) = fs(DATA_FILE \<mapsto> Csv \<lparr>columns = COLUMNS, rows = []\<rparr>))
   \<and> (\<not> submitted u \<and> fs DATA_FILE \<noteq> None \<longrightarrow> files (script e u fs) = fs)"
proof (intro conjI impI)
  show "files (tab2 e u s) = files s" by (rule files_tab2)
  show "files (tab3 e u s) = files s" by (rule files_tab3)
  show "files (tab4 u s) = files s" by (rule files_tab4)
  show "files (tab1 e u s) = files s" if "\<not> submitted u"
    using that by (simp add: files_tab1)
  show present: "files (load fs) = fs" if "fs DATA_FILE \<noteq> None"
  proof (cases "fs DATA_FILE")
    case None
    with that show ?thesis by simp
  next
    case (Some c)
    then show ?thesis
      by (cases c) (simp_all add: load_present load_unreadable)
  qed
  show "files (load fs) = fs(DATA_FILE \<mapsto> Csv \<lparr>columns = COLUMNS, rows = []\<rparr>)"
    if "fs DATA_FILE = None"
    using that by (simp add: load_absent)
  show "files (script e u fs) = fs" if "\<not> submitted u \<and> fs DATA_FILE \<noteq> None"
    using that present by (simp add: files_script files_tab1)
qed

theorem only_append_and_first_load_write_witness:
  "\<not> submitted quiet_ui
   \<and> fresh_dir DATA_FILE \<noteq> None
   \<and> files (load fresh_dir) = fresh_dir
   \<and> files (script sample_env quiet_ui fresh_dir) = fresh_dir
   \<and> empty_dir DATA_FILE = None
   \<and> files (load empty_dir) = empty_dir(DATA_FILE \<mapsto> Csv \<lparr>columns = COLUMNS, rows = []\<rparr>)"
  using only_append_and_first_load_write [of sample_env quiet_ui _ fresh_dir]
    only_append_and_first_load_write [of sample_env quiet_ui _ empty_dir]
  by (simp add: quiet_ui_def fresh_dir_def empty_dir_def)

subsection \<open>The analysis tab\<close>

lemma tab2_few_rows:
  assumes "length (rows (df s)) < 2"
  shows "tab2 e u s =
     s\<lparr>shown := shown s @ [Header ''Analysis & Insights'',
                             Warning ''Enter at least 2 days of data for analysis.'']\<rparr>"
  using assms by (simp add: tab2_def display_def Let_def)

lemma tab2_enough_rows:
  assumes "2 \<le> length (rows (df s))"
  shows "tab2 e u s =
     s\<lparr>df := assign_column ''burnout_risk'' (df s),
       shown := shown s
          @ [Header ''Analysis & Insights'', Write_pred_stress (predict_stress (df s))]
          @ (case predict_burnout e u (df s) of
               Some risk \<Rightarrow> [Write (burnout_message risk)]
             | None \<Rightarrow> [])
          @ [Plotly_chart ''Stress Over Time'', Plotly_chart ''Stress vs Study Hours'']\<rparr>"
  using assms by (simp add: tab2_def display_def Let_def split: option.splits)

text \<open>
  C3: for every log with fewer than 2 rows the stress prediction is omitted: no
  regression is fit and no predicted value is produced, and this is reported as a soft
  condition (a warning message), not raised as an error. For every log with at least 2
  rows the regression branch runs.
\<close>

theorem stress_prediction_guard:
  "(length (rows (df s)) < 2 \<longrightarrow>
      tab2 e u s =
        s\<lparr>shown := shown s @ [Header ''Analysis & Insights'',
                                Warning ''Enter at least 2 days of data for analysis.'']\<rparr>)
   \<and> (2 \<le> length (rows (df s)) \<longrightarrow>
        (\<exists>rest. shown (tab2 e u s) =
                  shown s @ [Header ''Analysis & Insights'',
                             Write_pred_stress
                               (linear_predict
                                  (LinearRegression_fit (map study_hours (rows (df s)))
                                     (map stress_level (rows (df s)))) 10)] @ rest
               \<and> (\<forall>w. Warning w \<notin> set rest)))
   \<and> raised (tab2 e u s) = raised s"
proof (intro conjI impI)
  assume "length (rows (df s)) < 2"
  then show "tab2 e u s =
        s\<lparr>shown := shown s @ [Header ''Analysis & Insights'',
                                Warning ''Enter at least 2 days of data for analysis.'']\<rparr>"
    by (rule tab2_few_rows)
next
  assume "2 \<le> length (rows (df s))"
  from tab2_enough_rows [OF this, of e u]
  show "\<exists>rest. shown (tab2 e u s) =
                  shown s @ [Header ''Analysis & Insights'',
                             Write_pred_stress
                               (linear_predict
                                  (LinearRegression_fit (map study_hours (rows (df s)))
                                     (map stress_level (rows (df s)))) 10)] @ rest
               \<and> (\<forall>w. Warning w \<notin> set rest)"
    by (auto simp: predict_stress_def Let_def split: option.splits)
next
  show "raised (tab2 e u s) = raised s" by (rule raised_tab2)
qed

theorem stress_prediction_guard_witness:
  "length (rows (df (load fresh_dir))) < 2
   \<and> shown (tab2 sample_env quiet_ui (load fresh_dir)) =
       [Header ''Analysis & Insights'', Warning ''Enter at least 2 days of data for analysis.'']
   \<and> 2 \<le> length (rows (df (load (session [(sample_env, day1_ui), (sample_env, day2_ui)] empty_dir))))
   \<and> raised (tab2 sample_env quiet_ui (load (session [(sample_env, day1_ui), (sample_env, day2_ui)] empty_dir))) = None"
  using stress_prediction_guard [of "load fresh_dir" sample_env quiet_ui]
    stress_prediction_guard [of "load (session [(sample_env, day1_ui), (sample_env, day2_ui)] empty_dir)" sample_env quiet_ui]
  by (simp add: fresh_dir_def load_present files_script files_tab1 load_absent empty_dir_def
      day1_ui_def day2_ui_def to_csv_def pd_concat_def)

subsection \<open>Appending and reloading\<close>

lemma load_csv_rows:
  "fs DATA_FILE = Some (Csv d) \<Longrightarrow> rows (df (load fs)) = rows d \<and> raised (load fs) = None"
  by (simp add: load_present)

lemma script_appends:
  assumes "fs DATA_FILE \<noteq> Some Unreadable"
  shows "\<exists>d. files (script e u fs) DATA_FILE = Some (Csv d)
           \<and> rows d = rows (df (load fs)) @ (if submitted u then [new_row e u] else [])"
proof (cases "fs DATA_FILE")
  case None
  then show ?thesis
    by (simp add: files_script files_tab1 load_absent to_csv_def pd_concat_def)
next
  case (Some c)
  with assms obtain d where "fs DATA_FILE = Some (Csv d)" by (cases c) auto
  then show ?thesis
    by (simp add: files_script files_tab1 load_present to_csv_def pd_concat_def)
qed

lemma session_rows:
  assumes "fs DATA_FILE \<noteq> Some Unreadable"
  shows "session is fs DATA_FILE \<noteq> Some Unreadable
         \<and> raised (load (session is fs)) = None
         \<and> rows (df (load (session is fs))) = rows (df (load fs)) @ appended is"
  using assms
proof (induction "is" arbitrary: fs)
  case Nil
  then show ?case
  proof (cases "fs DATA_FILE")
    case None
    then show ?thesis by (simp add: appended_def load_absent)
  next
    case (Some c)
    with Nil obtain d where "fs DATA_FILE = Some (Csv d)" by (cases c) auto
    then show ?thesis by (simp add: appended_def load_present)
  qed
next
  case (Cons i "is")
  let ?fs' = "files (script (fst i) (snd i) fs)"
  from script_appends [of fs "fst i" "snd i", OF Cons.prems]
  obtain d where d: "?fs' DATA_FILE = Some (Csv d)"
    and r: "rows d = rows (df (load fs)) @ (if submitted (snd i) then [new_row (fst i) (snd i)] else [])"
    by blast
  from d have ok: "?fs' DATA_FILE \<noteq> Some Unreadable" by simp
  from Cons.IH [of ?fs', OF ok] d r show ?case
    by (simp add: load_csv_rows appended_def)
qed

lemma session_append: "session (is @ js) fs = session js (session is fs)"
  by (induction "is" arbitrary: fs) simp_all

lemma strftime_sample: "strftime (today sample_env) = ''2025-03-07''"
  by (simp add: sample_env_def strftime_def zfill_def str_nat.simps digit_char_def)

text \<open>
  C1: for every sequence of N valid appends starting from an empty log, reloading the
  persisted table yields exactly N rows, in the order the observations were submitted,
  with each row's field values equal to the submitted values; the log never loses or
  reorders previously appended rows. Proved for every session of runs from any readable
  data file: reloading gives the rows that were there, then the submitted rows in order,
  and a longer session only adds rows at the end.
\<close>

theorem appends_round_trip:
  assumes "fs DATA_FILE \<noteq> Some Unreadable"
  shows "raised (load (session is fs)) = None
       \<and> rows (df (load (session is fs))) = rows (df (load fs)) @ appended is
       \<and> rows (df (load (session (is @ js) fs))) = rows (df (load (session is fs))) @ appended js
       \<and> (rows (df (load fs)) = [] \<and> (\<forall>i\<in>set is. submitted (snd i)) \<longrightarrow>
            length (rows (df (load (session is fs)))) = length is
            \<and> rows (df (load (session is fs))) =
                map (\<lambda>i. \<lparr>date = strftime (today (fst i)),
                           study_hours = ui_study_hours (snd i),
                           stress_level = of_int (ui_stress_level (snd i)),
                           sleep_hours = ui_sleep_hours (snd i),
                           exercise_min = of_int (ui_exercise_min (snd i))\<rparr>) is)"
proof (intro conjI impI)
  show "raised (load (session is fs)) = None"
    using session_rows [of fs "is", OF assms] by blast
  show all: "rows (df (load (session is fs))) = rows (df (load fs)) @ appended is"
    using session_rows [of fs "is", OF assms] by blast
  have "session is fs DATA_FILE \<noteq> Some Unreadable"
    using session_rows [of fs "is", OF assms] by blast
  from session_rows [of "session is fs" js, OF this]
  show "rows (df (load (session (is @ js) fs))) = rows (df (load (session is fs))) @ appended js"
    by (simp add: session_append)
next
  assume a: "rows (df (load fs)) = [] \<and> (\<forall>i\<in>set is. submitted (snd i))"
  then have f: "filter (\<lambda>i. submitted (snd i)) is = is" by simp
  have all: "rows (df (load (session is fs))) = rows (df (load fs)) @ appended is"
    using session_rows [of fs "is", OF assms] by blast
  show "length (rows (df (load (session is fs)))) = length is"
    using a by (simp add: all appended_def f)
  show "rows (df (load (session is fs))) =
                map (\<lambda>i. \<lparr>date = strftime (today (fst i)),
                           study_hours = ui_study_hours (snd i),
                           stress_level = of_int (ui_stress_level (snd i)),
                           sleep_hours = ui_sleep_hours (snd i),
                           exercise_min = of_int (ui_exercise_min (snd i))\<rparr>) is"
    using a by (simp add: all appended_def f new_row_def)
qed

theorem appends_round_trip_witness:
  "empty_dir DATA_FILE \<noteq> Some Unreadable
   \<and> rows (df (load empty_dir)) = []
   \<and> submitted day1_ui \<and> submitted day2_ui
   \<and> rows (df (load (session [(sample_env, day1_ui), (sample_env, day2_ui)] empty_dir))) =
       [\<lparr>date = ''2025-03-07'', study_hours = 2, stress_level = 3, sleep_hours = 8, exercise_min = 20\<rparr>,
        \<lparr>date = ''2025-03-07'', study_hours = 8, stress_level = 9, sleep_hours = 4, exercise_min = 0\<rparr>]"
proof -
  let ?is = "[(sample_env, day1_ui), (sample_env, day2_ui)]"
  have n: "empty_dir DATA_FILE = None" by (simp add: empty_dir_def)
  then have h: "empty_dir DATA_FILE \<noteq> Some Unreadable" by simp
  have l: "rows (df (load empty_dir)) = []" using n by (simp add: load_absent)
  have s: "\<forall>i\<in>set ?is. submitted (snd i)" by (simp add: day1_ui_def day2_ui_def)
  from appends_round_trip [of empty_dir ?is "[]", OF h] l s
  have "rows (df (load (session ?is empty_dir))) =
                map (\<lambda>i. \<lparr>date = strftime (today (fst i)),
                           study_hours = ui_study_hours (snd i),
                           stress_level = of_int (ui_stress_level (snd i)),
                           sleep_hours = ui_sleep_hours (snd i),
                           exercise_min = of_int (ui_exercise_min (snd i))\<rparr>) ?is"
    by blast
  also have "\<dots> =
       [\<lparr>date = ''2025-03-07'', study_hours = 2, stress_level = 3, sleep_hours = 8, exercise_min = 20\<rparr>,
        \<lparr>date = ''2025-03-07'', study_hours = 8, stress_level = 9, sleep_hours = 4, exercise_min = 0\<rparr>]"
    by (simp add: day1_ui_def day2_ui_def strftime_sample)
  finally show ?thesis using h l s by simp
qed

subsection \<open>The date of a submission\<close>




























subsection \<open>The stress prediction is the least-squares line at 10 hours\<close>

lemma zip_map_same: "zip (map f rs) (map g rs) = map (\<lambda>r. (f r, g r)) rs"
  by (induction rs) auto

lemma sum_sq_zero:
  fixes f :: "'a \<Rightarrow> real"
  assumes "(\<Sum>r\<leftarrow>rs. (f r - m) * (f r - m)) = 0" "r \<in> set rs"
  shows "f r = m"
proof -
  have "\<forall>x\<in>set (map (\<lambda>r. (f r - m) * (f r - m)) rs). 0 \<le> x" by auto
  then have "\<forall>x\<in>set (map (\<lambda>r. (f r - m) * (f r - m)) rs). x = 0"
    using assms(1) sum_list_nonneg_eq_0_iff by blast
  then show ?thesis using assms(2) by auto
qed

lemma fit_rows:
  "LinearRegression_fit (map f rs) (map g rs) =
     (let mx = mean (map f rs); my = mean (map g rs);
          sxx = (\<Sum>r\<leftarrow>rs. (f r - mx) * (f r - mx));
          sxy = (\<Sum>r\<leftarrow>rs. (f r - mx) * (g r - my));
          a = (if sxx = 0 then 0 else sxy / sxx)
      in \<lparr>coef = a, intercept = my - a * mx\<rparr>)"
  by (simp add: LinearRegression_fit_def zip_map_same comp_def Let_def)

lemma sum_centred:
  fixes f :: "'a \<Rightarrow> real"
  assumes "rs \<noteq> []"
  shows "(\<Sum>r\<leftarrow>rs. f r - mean (map f rs)) = 0"
proof -
  have "(\<Sum>r\<leftarrow>rs. f r - mean (map f rs)) = sum_list (map f rs) - real (length rs) * mean (map f rs)"
    by (simp add: sum_list_subtractf sum_list_triv)
  also have "\<dots> = 0" using assms by (simp add: mean_def)
  finally show ?thesis .
qed

lemma normal_eq1:
  fixes f g :: "'a \<Rightarrow> real"
  assumes "rs \<noteq> []"
  defines "m \<equiv> LinearRegression_fit (map f rs) (map g rs)"
  shows "(\<Sum>r\<leftarrow>rs. g r - (coef m * f r + intercept m)) = 0"
proof -
  let ?mx = "mean (map f rs)" and ?my = "mean (map g rs)"
  have b: "intercept m = ?my - coef m * ?mx"
    by (simp add: m_def fit_rows Let_def)
  have "(\<Sum>r\<leftarrow>rs. g r - (coef m * f r + intercept m))
      = (\<Sum>r\<leftarrow>rs. (g r - ?my) - coef m * (f r - ?mx))"
    by (simp add: b algebra_simps)
  also have "\<dots> = (\<Sum>r\<leftarrow>rs. g r - ?my) - coef m * (\<Sum>r\<leftarrow>rs. f r - ?mx)"
    by (simp add: sum_list_subtractf sum_list_const_mult)
  also have "\<dots> = 0" using assms(1) by (simp add: sum_centred)
  finally show ?thesis .
qed

lemma normal_eq2:
  fixes f g :: "'a \<Rightarrow> real"
  assumes "rs \<noteq> []"
  defines "m \<equiv> LinearRegression_fit (map f rs) (map g rs)"
  shows "(\<Sum>r\<leftarrow>rs. (g r - (coef m * f r + intercept m)) * f r) = 0"
proof -
  let ?mx = "mean (map f rs)" and ?my = "mean (map g rs)"
  let ?sxx = "(\<Sum>r\<leftarrow>rs. (f r - ?mx) * (f r - ?mx))"
  let ?sxy = "(\<Sum>r\<leftarrow>rs. (f r - ?mx) * (g r - ?my))"
  have b: "intercept m = ?my - coef m * ?mx"
    by (simp add: m_def fit_rows Let_def)
  have a: "coef m = (if ?sxx = 0 then 0 else ?sxy / ?sxx)"
    by (simp add: m_def fit_rows Let_def)
  have res0: "(\<Sum>r\<leftarrow>rs. g r - (coef m * f r + intercept m)) = 0"
    unfolding m_def using assms(1) by (rule normal_eq1)
  have "(\<Sum>r\<leftarrow>rs. (g r - (coef m * f r + intercept m)) * f r)
      = (\<Sum>r\<leftarrow>rs. (g r - (coef m * f r + intercept m)) * (f r - ?mx))
        + ?mx * (\<Sum>r\<leftarrow>rs. g r - (coef m * f r + intercept m))"
    by (simp add: sum_list_const_mult [symmetric] sum_list_addf [symmetric] algebra_simps)
  also have "\<dots> = (\<Sum>r\<leftarrow>rs. (g r - (coef m * f r + intercept m)) * (f r - ?mx))"
    by (simp add: res0)
  also have "\<dots> = (\<Sum>r\<leftarrow>rs. (f r - ?mx) * (g r - ?my) - coef m * ((f r - ?mx) * (f r - ?mx)))"
    by (simp add: b algebra_simps)
  also have "\<dots> = ?sxy - coef m * ?sxx"
    by (simp add: sum_list_subtractf sum_list_const_mult)
  also have "\<dots> = 0"
  proof (cases "?sxx = 0")
    case True
    then have "\<And>r. r \<in> set rs \<Longrightarrow> f r = ?mx" by (rule sum_sq_zero)
    then have "?sxy = (\<Sum>r\<leftarrow>rs. 0)"
      by (intro arg_cong [where f = sum_list] map_cong) auto
    then show ?thesis using True by simp
  next
    case False
    then show ?thesis by (simp add: a)
  qed
  finally show ?thesis .
qed


lemma residual_expand:
  fixes y a x b c e :: real
  shows "(y - (a * x + b)) * (y - (a * x + b)) =
    ((y - (c * x + e)) * (y - (c * x + e)) + ((a - c) * x + (b - e)) * ((a - c) * x + (b - e)))
    - (2 * (a - c) * ((y - (c * x + e)) * x) + 2 * (b - e) * (y - (c * x + e)))"
  by algebra

lemma squared_error_split:
  assumes "rs \<noteq> []"
  defines "m \<equiv> LinearRegression_fit (map study_hours rs) (map stress_level rs)"
  shows "squared_error rs a b =
         squared_error rs (coef m) (intercept m)
         + (\<Sum>r\<leftarrow>rs. ((a - coef m) * study_hours r + (b - intercept m))
                    * ((a - coef m) * study_hours r + (b - intercept m)))"
proof -
  let ?res = "\<lambda>r. stress_level r - (coef m * study_hours r + intercept m)"
  let ?d = "\<lambda>r. (a - coef m) * study_hours r + (b - intercept m)"
  have e1: "(\<Sum>r\<leftarrow>rs. ?res r) = 0"
    unfolding m_def using assms(1) by (rule normal_eq1)
  have e2: "(\<Sum>r\<leftarrow>rs. ?res r * study_hours r) = 0"
    unfolding m_def using assms(1) by (rule normal_eq2)
  have "squared_error rs a b = (\<Sum>r\<leftarrow>rs. (?res r * ?res r + ?d r * ?d r)
          - (2 * (a - coef m) * (?res r * study_hours r) + 2 * (b - intercept m) * ?res r))"
    unfolding squared_error_def
    by (intro arg_cong [where f = sum_list] map_cong refl residual_expand)
  also have "\<dots> = (\<Sum>r\<leftarrow>rs. ?res r * ?res r) + (\<Sum>r\<leftarrow>rs. ?d r * ?d r)
          - (2 * (a - coef m) * (\<Sum>r\<leftarrow>rs. ?res r * study_hours r)
             + 2 * (b - intercept m) * (\<Sum>r\<leftarrow>rs. ?res r))"
    by (simp only: sum_list_subtractf sum_list_addf sum_list_const_mult)
  also have "\<dots> = (\<Sum>r\<leftarrow>rs. ?res r * ?res r) + (\<Sum>r\<leftarrow>rs. ?d r * ?d r)"
    by (simp only: e1 e2)
  finally show ?thesis by (simp add: squared_error_def)
qed

lemma fit_least_squares:
  assumes "rs \<noteq> []"
  defines "m \<equiv> LinearRegression_fit (map study_hours rs) (map stress_level rs)"
  shows "squared_error rs (coef m) (intercept m) \<le> squared_error rs a b"
proof -
  have "0 \<le> (\<Sum>r\<leftarrow>rs. ((a - coef m) * study_hours r + (b - intercept m))
                    * ((a - coef m) * study_hours r + (b - intercept m)))"
    by (rule sum_list_nonneg) auto
  moreover have "squared_error rs a b =
         squared_error rs (coef m) (intercept m)
         + (\<Sum>r\<leftarrow>rs. ((a - coef m) * study_hours r + (b - intercept m))
                    * ((a - coef m) * study_hours r + (b - intercept m)))"
    unfolding m_def using assms(1) by (rule squared_error_split)
  ultimately show ?thesis by linarith
qed

lemma fit_unique:
  assumes "r1 \<in> set rs" "r2 \<in> set rs" "study_hours r1 \<noteq> study_hours r2"
  defines "m \<equiv> LinearRegression_fit (map study_hours rs) (map stress_level rs)"
  assumes le: "squared_error rs a b \<le> squared_error rs (coef m) (intercept m)"
  shows "a = coef m \<and> b = intercept m"
proof -
  define d where "d = (\<lambda>r::observation. (a - coef m) * study_hours r + (b - intercept m))"
  have ne: "rs \<noteq> []" using assms(1) by auto
  have nonneg: "0 \<le> (\<Sum>r\<leftarrow>rs. d r * d r)"
    by (rule sum_list_nonneg) auto
  have "squared_error rs a b =
         squared_error rs (coef m) (intercept m) + (\<Sum>r\<leftarrow>rs. d r * d r)"
    unfolding m_def d_def using ne by (rule squared_error_split)
  with le nonneg have "(\<Sum>r\<leftarrow>rs. (d r - 0) * (d r - 0)) = 0" by simp
  then have z: "\<And>r. r \<in> set rs \<Longrightarrow> d r = 0"
    by (rule sum_sq_zero)
  have "d r1 = 0" "d r2 = 0" using z assms(1,2) by blast+
  then have e1: "(a - coef m) * study_hours r1 + (b - intercept m) = 0"
    and e2: "(a - coef m) * study_hours r2 + (b - intercept m) = 0"
    by (simp_all add: d_def)
  from e1 e2 have "(a - coef m) * (study_hours r1 - study_hours r2) = 0"
    by (simp add: algebra_simps)
  then have a: "a = coef m" using assms(3) by simp
  with e1 have "b = intercept m" by simp
  with a show ?thesis ..
qed

text \<open>
  C8: for every log with at least 2 rows and at least two distinct study_hours values,
  the displayed predicted stress equals the ordinary least-squares linear fit of
  stress_level on study_hours over the entire log, evaluated at the fixed probe value of
  10 study hours. The line is the one that minimises the sum of squared residuals over
  all rows, and it is the only one. The fit is computed from the table of the run: the
  state holds no model.
\<close>

theorem predicted_stress_is_least_squares:
  assumes "2 \<le> length (rows (df s))"
    and "r1 \<in> set (rows (df s))" and "r2 \<in> set (rows (df s))"
    and "study_hours r1 \<noteq> study_hours r2"
  shows "\<exists>a b rest.
           shown (tab2 e u s) =
             shown s @ [Header ''Analysis & Insights'', Write_pred_stress (a * 10 + b)] @ rest
         \<and> (\<forall>a' b'. squared_error (rows (df s)) a b \<le> squared_error (rows (df s)) a' b')
         \<and> (\<forall>a' b'. squared_error (rows (df s)) a' b' \<le> squared_error (rows (df s)) a b
                \<longrightarrow> a' = a \<and> b' = b)"
proof -
  define m where
    "m = LinearRegression_fit (map study_hours (rows (df s))) (map stress_level (rows (df s)))"
  have ne: "rows (df s) \<noteq> []" using assms(2) by auto
  have p: "predict_stress (df s) = coef m * 10 + intercept m"
    by (simp add: predict_stress_def Let_def linear_predict_def m_def)
  have "shown (tab2 e u s) =
          shown s @ [Header ''Analysis & Insights'', Write_pred_stress (coef m * 10 + intercept m)]
            @ (case predict_burnout e u (df s) of
                 Some risk \<Rightarrow> [Write (burnout_message risk)]
               | None \<Rightarrow> [])
            @ [Plotly_chart ''Stress Over Time'', Plotly_chart ''Stress vs Study Hours'']"
    by (simp add: tab2_enough_rows [OF assms(1)] p)
  moreover have "\<forall>a' b'. squared_error (rows (df s)) (coef m) (intercept m)
                    \<le> squared_error (rows (df s)) a' b'"
    unfolding m_def using fit_least_squares [OF ne] by blast
  moreover have "\<forall>a' b'. squared_error (rows (df s)) a' b'
                    \<le> squared_error (rows (df s)) (coef m) (intercept m)
                  \<longrightarrow> a' = coef m \<and> b' = intercept m"
    unfolding m_def using fit_unique [OF assms(2,3,4)] by blast
  ultimately show ?thesis by blast
qed

theorem predicted_stress_is_least_squares_witness:
  "2 \<le> length (rows (df two_day_state))
   \<and> day1_row \<in> set (rows (df two_day_state))
   \<and> day2_row \<in> set (rows (df two_day_state))
   \<and> study_hours day1_row \<noteq> study_hours day2_row
   \<and> (\<exists>rest. shown (tab2 sample_env quiet_ui two_day_state) =
         [Header ''Analysis & Insights'', Write_pred_stress 11] @ rest)"
proof -
  have h1: "2 \<le> length (rows (df two_day_state))"
    and h2: "day1_row \<in> set (rows (df two_day_state))"
    and h3: "day2_row \<in> set (rows (df two_day_state))"
    by (simp_all add: two_day_state_def two_day_log_def)
  have h4: "study_hours day1_row \<noteq> study_hours day2_row"
    by (simp add: day1_row_def day2_row_def)
  have rs: "rows (df two_day_state) = [day1_row, day2_row]"
    by (simp add: two_day_state_def two_day_log_def)
  from predicted_stress_is_least_squares [of two_day_state day1_row day2_row sample_env quiet_ui,
      OF h1 h2 h3 h4]
  obtain a b rest where
    sh: "shown (tab2 sample_env quiet_ui two_day_state) =
           shown two_day_state @ [Header ''Analysis & Insights'', Write_pred_stress (a * 10 + b)] @ rest"
    and uniq: "\<And>a' b'. squared_error (rows (df two_day_state)) a' b'
                 \<le> squared_error (rows (df two_day_state)) a b \<Longrightarrow> a' = a \<and> b' = b"
    by blast
  have "squared_error (rows (df two_day_state)) 1 1 = 0"
    by (simp add: rs squared_error_def day1_row_def day2_row_def)
  moreover have "0 \<le> squared_error (rows (df two_day_state)) a b"
    unfolding squared_error_def by (rule sum_list_nonneg) auto
  ultimately have "1 = a \<and> 1 = b" by (intro uniq) simp
  then have "a * 10 + b = 11" by auto
  with sh have "shown (tab2 sample_env quiet_ui two_day_state) =
         [Header ''Analysis & Insights'', Write_pred_stress 11] @ rest"
    by (simp add: two_day_state_def)
  with h1 h2 h3 h4 show ?thesis by blast
qed

subsection \<open>The burnout prediction\<close>

lemma fold_pick_mem:
  "fold (\<lambda>d best. if P d best then d else best) cs c \<in> set (c # cs)"
proof (induction cs arbitrary: c)
  case Nil
  show ?case by simp
next
  case (Cons d ds)
  from Cons.IH [of "if P d c then d else c"] show ?case by (auto split: if_splits)
qed

lemma majority_mem:
  assumes "ys \<noteq> []"
  shows "majority ys \<in> set ys"
proof (cases "sort (remdups ys)")
  case Nil
  then have "set (sort (remdups ys)) = {}" by simp
  with assms show ?thesis by simp
next
  case (Cons c cs)
  then have "majority ys \<in> set (c # cs)"
    by (simp add: majority_def fold_pick_mem del: set_simps)
  also have "set (c # cs) = set (sort (remdups ys))" by (simp add: Cons)
  finally show ?thesis by simp
qed

lemma build_leaf:
  "length S < 2 \<or> length (remdups (map snd S)) \<le> 1 \<Longrightarrow> build ord S = Leaf (majority (map snd S))"
  by (subst build.simps) simp

lemma build_no_split:
  "best_split (ord S) S = None \<Longrightarrow> build ord S = Leaf (majority (map snd S))"
  by (subst build.simps) simp

lemma build_node:
  "\<not> (length S < 2 \<or> length (remdups (map snd S)) \<le> 1) \<Longrightarrow> best_split (ord S) S = Some c \<Longrightarrow>
   build ord S = Node (fst c) (snd c) (build ord (left_of c S)) (build ord (right_of c S))"
  by (subst build.simps) simp

lemma predicted_label_is_training_label:
  "S \<noteq> [] \<Longrightarrow> tree_predict (build ord S) q \<in> snd ` set S"
proof (induction ord S rule: build.induct)
  case (1 ord S)
  have leaf: "tree_predict (Leaf (majority (map snd S))) q \<in> snd ` set S"
    using majority_mem [of "map snd S"] "1.prems" by simp
  show ?case
  proof (cases "length S < 2 \<or> length (remdups (map snd S)) \<le> 1")
    case True
    with leaf show ?thesis by (simp add: build_leaf)
  next
    case False
    show ?thesis
    proof (cases "best_split (ord S) S")
      case None
      with leaf show ?thesis by (simp add: build_no_split)
    next
      case (Some c)
      from candidates_separate [OF best_split_mem [OF Some]]
      have l: "left_of c S \<noteq> []" and r: "right_of c S \<noteq> []"
        by (auto simp: left_of_def right_of_def filter_empty_conv)
      have "tree_predict (build ord (left_of c S)) q \<in> snd ` set (left_of c S)"
        using "1.IH"(1) [OF False Some l] .
      then have L: "tree_predict (build ord (left_of c S)) q \<in> snd ` set S"
        by (auto simp: left_of_def)
      have "tree_predict (build ord (right_of c S)) q \<in> snd ` set (right_of c S)"
        using "1.IH"(2) [OF False Some r] .
      then have R: "tree_predict (build ord (right_of c S)) q \<in> snd ` set S"
        by (auto simp: right_of_def)
      from L R show ?thesis by (simp add: build_node [of S ord c, OF False Some])
    qed
  qed
qed

lemma predict_burnout_Some:
  "predict_burnout e u d = Some risk \<longleftrightarrow>
     1 < length (remdups (burnout_risk d)) \<and>
     risk = tree_predict
              (DecisionTreeClassifier_fit (feature_order e)
                 (map (\<lambda>r. [sleep_hours r, stress_level r, study_hours r]) (rows d))
                 (burnout_risk d))
              [ui_sleep_hours u, of_int (ui_stress_level u), ui_study_hours u]"
  unfolding predict_burnout_def Let_def by (cases "1 < length (remdups (burnout_risk d))") auto

lemma predict_burnout_None:
  "predict_burnout e u d = None \<longleftrightarrow> length (remdups (burnout_risk d)) \<le> 1"
  unfolding predict_burnout_def Let_def by (cases "1 < length (remdups (burnout_risk d))") auto

lemma predict_burnout_binary:
  assumes "predict_burnout e u d = Some risk"
  shows "risk \<in> {0, 1}"
proof -
  define X where "X = map (\<lambda>r. [sleep_hours r, stress_level r, study_hours r]) (rows d)"
  define S where "S = zip X (burnout_risk d)"
  from assms have two: "1 < length (remdups (burnout_risk d))"
    and risk: "risk = tree_predict (build (feature_order e) S)
                  [ui_sleep_hours u, of_int (ui_stress_level u), ui_study_hours u]"
    unfolding predict_burnout_Some DecisionTreeClassifier_fit_def S_def X_def by blast+
  from two have "burnout_risk d \<noteq> []" by auto
  then have "length (burnout_risk d) \<noteq> 0" by simp
  then have "length S \<noteq> 0"
    by (simp add: S_def X_def length_burnout_risk)
  then have "S \<noteq> []" by auto
  from predicted_label_is_training_label [OF this]
  have "risk \<in> snd ` set S" unfolding risk .
  also have "\<dots> \<subseteq> set (burnout_risk d)"
    unfolding S_def by (auto dest: set_zip_rightD)
  also have "\<dots> \<subseteq> {0, 1}" by (rule burnout_risk_binary)
  finally show ?thesis .
qed

text \<open>
  C4: for every log, the burnout prediction is omitted whenever every historical row
  maps to the same burnout label under the fixed rule (including logs with 0 or 1 rows,
  which cannot yield two distinct labels); otherwise a classifier is fit on all rows and
  the prediction for the given (sleep, stress, study) triple is a label in {0, 1}.
\<close>

theorem burnout_prediction_guard:
  "(length (rows (df s)) < 2 \<longrightarrow> length (remdups (burnout_risk (df s))) \<le> 1)
   \<and> (length (remdups (burnout_risk (df s))) \<le> 1 \<longrightarrow>
        predict_burnout e u (df s) = None
        \<and> (\<forall>risk. Write (burnout_message risk)
                    \<notin> set (drop (length (shown s)) (shown (tab2 e u s)))))
   \<and> (1 < length (remdups (burnout_risk (df s))) \<longrightarrow>
        (\<exists>risk. risk \<in> {0, 1}
           \<and> risk = tree_predict
                      (DecisionTreeClassifier_fit (feature_order e)
                         (map (\<lambda>r. [sleep_hours r, stress_level r, study_hours r]) (rows (df s)))
                         (burnout_risk (df s)))
                      [ui_sleep_hours u, of_int (ui_stress_level u), ui_study_hours u]
           \<and> predict_burnout e u (df s) = Some risk
           \<and> drop (length (shown s)) (shown (tab2 e u s)) =
               [Header ''Analysis & Insights'', Write_pred_stress (predict_stress (df s)),
                Write (burnout_message risk),
                Plotly_chart ''Stress Over Time'', Plotly_chart ''Stress vs Study Hours'']))"
proof (intro conjI impI)
  assume "length (rows (df s)) < 2"
  moreover have "length (remdups (burnout_risk (df s))) \<le> length (burnout_risk (df s))"
    by (rule length_remdups_leq)
  ultimately show "length (remdups (burnout_risk (df s))) \<le> 1"
    by (simp add: length_burnout_risk)
next
  assume one: "length (remdups (burnout_risk (df s))) \<le> 1"
  then show none: "predict_burnout e u (df s) = None"
    by (simp add: predict_burnout_None)
  show "\<forall>risk. Write (burnout_message risk)
                    \<notin> set (drop (length (shown s)) (shown (tab2 e u s)))"
  proof (cases "length (rows (df s)) < 2")
    case True
    then show ?thesis by (simp add: tab2_few_rows)
  next
    case False
    then have "2 \<le> length (rows (df s))" by simp
    then show ?thesis by (simp add: tab2_enough_rows none)
  qed
next
  assume two: "1 < length (remdups (burnout_risk (df s)))"
  define risk where
    "risk = tree_predict
              (DecisionTreeClassifier_fit (feature_order e)
                 (map (\<lambda>r. [sleep_hours r, stress_level r, study_hours r]) (rows (df s)))
                 (burnout_risk (df s)))
              [ui_sleep_hours u, of_int (ui_stress_level u), ui_study_hours u]"
  have some: "predict_burnout e u (df s) = Some risk"
    unfolding predict_burnout_Some risk_def using two by simp
  then have bin: "risk \<in> {0, 1}" by (rule predict_burnout_binary)
  have "length (remdups (burnout_risk (df s))) \<le> length (burnout_risk (df s))"
    by (rule length_remdups_leq)
  with two have "2 \<le> length (rows (df s))" by (simp add: length_burnout_risk)
  then have "drop (length (shown s)) (shown (tab2 e u s)) =
               [Header ''Analysis & Insights'', Write_pred_stress (predict_stress (df s)),
                Write (burnout_message risk),
                Plotly_chart ''Stress Over Time'', Plotly_chart ''Stress vs Study Hours'']"
    by (simp add: tab2_enough_rows some)
  with bin some show "\<exists>risk. risk \<in> {0, 1}
           \<and> risk = tree_predict
                      (DecisionTreeClassifier_fit (feature_order e)
                         (map (\<lambda>r. [sleep_hours r, stress_level r, study_hours r]) (rows (df s)))
                         (burnout_risk (df s)))
                      [ui_sleep_hours u, of_int (ui_stress_level u), ui_study_hours u]
           \<and> predict_burnout e u (df s) = Some risk
           \<and> drop (length (shown s)) (shown (tab2 e u s)) =
               [Header ''Analysis & Insights'', Write_pred_stress (predict_stress (df s)),
                Write (burnout_message risk),
                Plotly_chart ''Stress Over Time'', Plotly_chart ''Stress vs Study Hours'']"
    unfolding risk_def by blast
qed

lemma burnout_risk_two_day: "burnout_risk two_day_log = [0, 1]"
  by (simp add: burnout_risk_def two_day_log_def day1_row_def day2_row_def)

theorem burnout_prediction_guard_witness:
  "length (rows (df (load fresh_dir))) < 2
   \<and> length (remdups (burnout_risk (df (load fresh_dir)))) \<le> 1
   \<and> predict_burnout sample_env quiet_ui (df (load fresh_dir)) = None
   \<and> 1 < length (remdups (burnout_risk (df two_day_state)))
   \<and> (\<exists>risk. risk \<in> {0, 1}
         \<and> predict_burnout sample_env quiet_ui (df two_day_state) = Some risk)"
proof -
  have l: "length (rows (df (load fresh_dir))) < 2"
    by (simp add: fresh_dir_def load_present)
  have t: "1 < length (remdups (burnout_risk (df two_day_state)))"
    by (simp add: two_day_state_def burnout_risk_two_day)
  note a = burnout_prediction_guard [of "load fresh_dir" sample_env quiet_ui]
  note b = burnout_prediction_guard [of two_day_state sample_env quiet_ui]
  from a l have "length (remdups (burnout_risk (df (load fresh_dir)))) \<le> 1" by blast
  moreover from a this have "predict_burnout sample_env quiet_ui (df (load fresh_dir)) = None"
    by blast
  moreover from b t have "\<exists>risk. risk \<in> {0, 1}
         \<and> predict_burnout sample_env quiet_ui (df two_day_state) = Some risk"
    by blast
  ultimately show ?thesis using l t by blast
qed

subsection \<open>The two-day scenario\<close>

lemma best_of_keep:
  "\<forall>c\<in>set cs. \<not> score S c > score S b \<Longrightarrow> best_of S cs (Some b) = Some b"
  by (induction cs) simp_all

lemma best_split_first:
  assumes "candidates fs S = b # cs" and "\<forall>c\<in>set cs. \<not> score S c > score S b"
  shows "best_split fs S = Some b"
  using assms by (simp add: best_split_def best_of_keep)

lemma two_samples_thresholds:
  "f \<in> {0, 1, 2} \<Longrightarrow>
   thresholds (map (\<lambda>s. fst s ! f) [([8, 3, 2], 0 :: nat), ([4, 9, 8], 1)])
     = [if f = 2 then 5 else 6]"
  by (auto simp: thresholds_def)

lemma two_samples_candidates:
  "set fs \<subseteq> {0, 1, 2} \<Longrightarrow>
   candidates fs [([8, 3, 2], 0), ([4, 9, 8], 1)] = map (\<lambda>f. (f, if f = 2 then 5 else 6)) fs"
proof (induction fs)
  case Nil
  show ?case by (simp add: candidates_def)
next
  case (Cons f fs)
  then have "f \<in> {0, 1, 2}" and "set fs \<subseteq> {0, 1, 2}" by auto
  with Cons.IH show ?case
    using two_samples_thresholds [of f] by (simp add: candidates_def)
qed

lemma two_samples_score:
  "f \<in> {0, 1, 2} \<Longrightarrow>
   score [([8, 3, 2], 0), ([4, 9, 8], 1)] (f, if f = 2 then 5 else 6) = 2"
  by (auto simp: score_def left_of_def right_of_def proxy_improvement_def sq_counts_def)

lemma two_samples_split:
  assumes "set (f # fs) \<subseteq> {0, 1, 2}"
  shows "best_split (f # fs) [([8, 3, 2], 0), ([4, 9, 8], 1)] = Some (f, if f = 2 then 5 else 6)"
proof (rule best_split_first)
  show "candidates (f # fs) [([8, 3, 2], 0), ([4, 9, 8], 1)]
        = (f, if f = 2 then 5 else 6) # map (\<lambda>f. (f, if f = 2 then 5 else 6)) fs"
    using two_samples_candidates [OF assms] by simp
  show "\<forall>c\<in>set (map (\<lambda>f. (f, if f = 2 then 5 else 6)) fs).
          \<not> score [([8, 3, 2], 0), ([4, 9, 8], 1)] c
              > score [([8, 3, 2], 0), ([4, 9, 8], 1)] (f, if f = 2 then 5 else 6)"
  proof
    fix c :: "nat \<times> real"
    assume "c \<in> set (map (\<lambda>f. (f, if f = 2 then 5 else 6)) fs)"
    then obtain g where g: "g \<in> set fs" and c: "c = (g, if g = 2 then 5 else 6)" by auto
    from g assms have "g \<in> {0, 1, 2}" by auto
    moreover from assms have "f \<in> {0, 1, 2}" by auto
    ultimately show "\<not> score [([8, 3, 2], 0), ([4, 9, 8], 1)] c
              > score [([8, 3, 2], 0), ([4, 9, 8], 1)] (f, if f = 2 then 5 else 6)"
      unfolding c by (simp only: two_samples_score)
  qed
qed

lemma majority_single: "majority [c] = c"
  by (simp add: majority_def)

lemma two_samples_predict:
  assumes "set (ord [([8, 3, 2], 0), ([4, 9, 8], 1)]) = {0, 1, 2}"
  shows "tree_predict (build ord [([8, 3, 2], 0), ([4, 9, 8], 1)]) [4, 9, 8] = 1"
proof -
  let ?S = "[([8, 3, 2], 0 :: nat), ([4, 9, 8], 1)] :: sample list"
  from assms obtain f fs where o: "ord ?S = f # fs"
    by (cases "ord ?S") auto
  with assms have sub: "set (f # fs) \<subseteq> {0, 1, 2}" by simp
  then have f: "f \<in> {0, 1, 2}" by simp
  have split: "best_split (ord ?S) ?S = Some (f, if f = 2 then 5 else 6)"
    unfolding o using sub by (rule two_samples_split)
  have nl: "\<not> (length ?S < 2 \<or> length (remdups (map snd ?S)) \<le> 1)" by simp
  note node = build_node [of ?S ord "(f, if f = 2 then 5 else 6)", OF nl split]
  from f consider "f = 0" | "f = 1" | "f = 2" by auto
  then show ?thesis
  proof cases
    case 1
    then show ?thesis
      by (subst node) (simp add: left_of_def right_of_def build_leaf majority_single)
  next
    case 2
    then show ?thesis
      by (subst node) (simp add: left_of_def right_of_def build_leaf majority_single)
  next
    case 3
    then show ?thesis
      by (subst node) (simp add: left_of_def right_of_def build_leaf majority_single)
  qed
qed

text \<open>
  C9: for the two-row log [(day 1: study 2, stress 3, sleep 8, exercise 20), (day 2:
  study 8, stress 9, sleep 4, exercise 0)], the burnout prediction for today's inputs
  (sleep 4, stress 9, study 8) is performed (the two rows yield the two distinct labels 0
  and 1) and returns 1, in whatever order the tree library visits the three features.
\<close>

theorem two_day_burnout_scenario:
  assumes "set (feature_order e [([8, 3, 2], 0), ([4, 9, 8], 1)]) = {0, 1, 2}"
    and "ui_sleep_hours u = 4" and "ui_stress_level u = 9" and "ui_study_hours u = 8"
  shows "burnout_risk
           \<lparr>columns = cs,
            rows = [\<lparr>date = d1, study_hours = 2, stress_level = 3, sleep_hours = 8, exercise_min = 20\<rparr>,
                    \<lparr>date = d2, study_hours = 8, stress_level = 9, sleep_hours = 4, exercise_min = 0\<rparr>]\<rparr>
           = [0, 1]
       \<and> predict_burnout e u
           \<lparr>columns = cs,
            rows = [\<lparr>date = d1, study_hours = 2, stress_level = 3, sleep_hours = 8, exercise_min = 20\<rparr>,
                    \<lparr>date = d2, study_hours = 8, stress_level = 9, sleep_hours = 4, exercise_min = 0\<rparr>]\<rparr>
           = Some 1"
proof -
  let ?d = "\<lparr>columns = cs,
            rows = [\<lparr>date = d1, study_hours = 2, stress_level = 3, sleep_hours = 8, exercise_min = 20\<rparr>,
                    \<lparr>date = d2, study_hours = 8, stress_level = 9, sleep_hours = 4, exercise_min = 0\<rparr>]\<rparr>"
  have labels: "burnout_risk ?d = [0, 1]"
    by (simp add: burnout_risk_def)
  have "predict_burnout e u ?d =
          Some (tree_predict (build (feature_order e) [([8, 3, 2], 0), ([4, 9, 8], 1)]) [4, 9, 8])"
    unfolding predict_burnout_def Let_def labels DecisionTreeClassifier_fit_def
    by (simp add: assms(2,3,4))
  also have "\<dots> = Some 1"
    using two_samples_predict [of "feature_order e", OF assms(1)] by simp
  finally show ?thesis using labels by blast
qed

theorem two_day_burnout_scenario_witness:
  "set (feature_order sample_env [([8, 3, 2], 0), ([4, 9, 8], 1)]) = {0, 1, 2}
   \<and> ui_sleep_hours quiet_ui = 4 \<and> ui_stress_level quiet_ui = 9 \<and> ui_study_hours quiet_ui = 8
   \<and> burnout_risk two_day_log = [0, 1]
   \<and> predict_burnout sample_env quiet_ui two_day_log = Some 1"
proof -
  have o: "set (feature_order sample_env [([8, 3, 2], 0), ([4, 9, 8], 1)]) = {0, 1, 2}"
    by (auto simp: sample_env_def)
  have u: "ui_sleep_hours quiet_ui = 4" "ui_stress_level quiet_ui = 9" "ui_study_hours quiet_ui = 8"
    by (simp_all add: quiet_ui_def)
  from two_day_burnout_scenario [of sample_env quiet_ui COLUMNS "''2025-03-06''" "''2025-03-07''",
      OF o u]
  have "burnout_risk two_day_log = [0, 1] \<and> predict_burnout sample_env quiet_ui two_day_log = Some 1"
    by (simp add: two_day_log_def day1_row_def day2_row_def)
  with o u show ?thesis by blast
qed

subsection \<open>The study plan\<close>

lemma str_int_1: "str_int 1 = ''1''"
  by (simp add: str_int_def str_nat.simps digit_char_def)

lemma plan_text_phases:
  "plan_text e u =
     ''Personalized '' @ str_int (days_left u) @ ''-Day Plan for '' @ exam u @ '':'' @ NL
     @ phase_line 1 (days_left u div 4)
         (''Focus on strong subjects ('' @ strong_subjects u @ '') + Basics & PYQs'')
     @ phase_line (days_left u div 4 + 1) (2 * (days_left u div 4))
         (''Tackle weak subjects ('' @ weak_subjects u @ '') + Drills'')
     @ phase_line (2 * (days_left u div 4) + 1) (3 * (days_left u div 4)) ''Mixed mocks + Review''
     @ phase_line (3 * (days_left u div 4) + 1) (days_left u) ''Full revision + Rest''
     @ NL @ ''Health Reminders:'' @ NL
     @ generator e (''Generate 3 short wellness tips for a student studying ''
          @ str_int (days_left u) @ '' days for Olympiad, focusing on stress and health.'')"
  by (simp add: plan_text_def Let_def phase_line_def str_int_1)

lemma tab3_shows_plan:
  assumes "generate_plan u"
  shows "\<exists>rest. shown (tab3 e u s) =
           shown s @ [Header ''Study Pathway Generator'', Text_area ''Your Plan'' (plan_text e u)] @ rest"
  using assms by (simp add: tab3_def Let_def display_def split: sum.splits)

text \<open>
  C7: for every days_left of at least 1, the plan generator integer-divides days_left by
  4 to get a phase length p and produces exactly four phases with boundaries days 1 to p,
  p+1 to 2p, 2p+1 to 3p, and 3p+1 to days_left, the last phase absorbing any remainder.
  In particular for days_left = 20 the four phases are each 5 days, at days 1-5, 6-10,
  11-15 and 16-20.
\<close>

theorem plan_four_phases:
  assumes "1 \<le> days_left u"
  shows "\<exists>p. p = days_left u div 4
       \<and> plan_text e u =
           ''Personalized '' @ str_int (days_left u) @ ''-Day Plan for '' @ exam u @ '':'' @ NL
           @ phase_line 1 p (''Focus on strong subjects ('' @ strong_subjects u @ '') + Basics & PYQs'')
           @ phase_line (p + 1) (2 * p) (''Tackle weak subjects ('' @ weak_subjects u @ '') + Drills'')
           @ phase_line (2 * p + 1) (3 * p) ''Mixed mocks + Review''
           @ phase_line (3 * p + 1) (days_left u) ''Full revision + Rest''
           @ NL @ ''Health Reminders:'' @ NL
           @ generator e (''Generate 3 short wellness tips for a student studying ''
                @ str_int (days_left u) @ '' days for Olympiad, focusing on stress and health.'')
       \<and> (generate_plan u \<longrightarrow>
            (\<exists>rest. shown (tab3 e u s) =
               shown s @ [Header ''Study Pathway Generator'', Text_area ''Your Plan'' (plan_text e u)] @ rest))
       \<and> 0 \<le> p \<and> 3 * p + 1 \<le> days_left u
       \<and> days_left u - 3 * p = p + days_left u mod 4
       \<and> (days_left u = 20 \<longrightarrow>
            p = 5
            \<and> plan_text e u =
                ''Personalized 20-Day Plan for '' @ exam u @ '':'' @ NL
                @ ''Days 1-5: Focus on strong subjects ('' @ strong_subjects u @ '') + Basics & PYQs'' @ NL
                @ ''Days 6-10: Tackle weak subjects ('' @ weak_subjects u @ '') + Drills'' @ NL
                @ ''Days 11-15: Mixed mocks + Review'' @ NL
                @ ''Days 16-20: Full revision + Rest'' @ NL
                @ NL @ ''Health Reminders:'' @ NL
                @ generator e ''Generate 3 short wellness tips for a student studying 20 days for Olympiad, focusing on stress and health.'')"
proof (intro exI [of _ "days_left u div 4"] conjI impI)
  show "days_left u div 4 = days_left u div 4" ..
  show "plan_text e u =
           ''Personalized '' @ str_int (days_left u) @ ''-Day Plan for '' @ exam u @ '':'' @ NL
           @ phase_line 1 (days_left u div 4) (''Focus on strong subjects ('' @ strong_subjects u @ '') + Basics & PYQs'')
           @ phase_line (days_left u div 4 + 1) (2 * (days_left u div 4)) (''Tackle weak subjects ('' @ weak_subjects u @ '') + Drills'')
           @ phase_line (2 * (days_left u div 4) + 1) (3 * (days_left u div 4)) ''Mixed mocks + Review''
           @ phase_line (3 * (days_left u div 4) + 1) (days_left u) ''Full revision + Rest''
           @ NL @ ''Health Reminders:'' @ NL
           @ generator e (''Generate 3 short wellness tips for a student studying ''
                @ str_int (days_left u) @ '' days for Olympiad, focusing on stress and health.'')"
    by (rule plan_text_phases)
  show "\<exists>rest. shown (tab3 e u s) =
               shown s @ [Header ''Study Pathway Generator'', Text_area ''Your Plan'' (plan_text e u)] @ rest"
    if "generate_plan u"
    using that by (rule tab3_shows_plan)
  show "0 \<le> days_left u div 4" using assms by simp
  show "3 * (days_left u div 4) + 1 \<le> days_left u" using assms by presburger
  show "days_left u - 3 * (days_left u div 4) = days_left u div 4 + days_left u mod 4"
    by presburger
next
  assume t: "days_left u = 20"
  show "days_left u div 4 = 5" by (simp add: t)
  show "plan_text e u =
                ''Personalized 20-Day Plan for '' @ exam u @ '':'' @ NL
                @ ''Days 1-5: Focus on strong subjects ('' @ strong_subjects u @ '') + Basics & PYQs'' @ NL
                @ ''Days 6-10: Tackle weak subjects ('' @ weak_subjects u @ '') + Drills'' @ NL
                @ ''Days 11-15: Mixed mocks + Review'' @ NL
                @ ''Days 16-20: Full revision + Rest'' @ NL
                @ NL @ ''Health Reminders:'' @ NL
                @ generator e ''Generate 3 short wellness tips for a student studying 20 days for Olympiad, focusing on stress and health.''"
    by (simp add: plan_text_def Let_def t str_int_def str_nat.simps digit_char_def)
qed

theorem plan_four_phases_witness:
  "1 \<le> days_left quiet_ui \<and> days_left quiet_ui = 20 \<and> generate_plan quiet_ui
   \<and> plan_text sample_env quiet_ui =
        ''Personalized 20-Day Plan for IOQM:'' @ NL
        @ ''Days 1-5: Focus on strong subjects (Algebra) + Basics & PYQs'' @ NL
        @ ''Days 6-10: Tackle weak subjects (Number Theory) + Drills'' @ NL
        @ ''Days 11-15: Mixed mocks + Review'' @ NL
        @ ''Days 16-20: Full revision + Rest'' @ NL
        @ NL @ ''Health Reminders:'' @ NL @ ''Sleep well.''
   \<and> (\<exists>rest. shown (tab3 sample_env quiet_ui two_day_state) =
          [Header ''Study Pathway Generator'',
           Text_area ''Your Plan'' (plan_text sample_env quiet_ui)] @ rest)"
proof -
  have d: "days_left quiet_ui = 20" by (simp add: quiet_ui_def)
  then have h: "1 \<le> days_left quiet_ui" by simp
  have g: "generate_plan quiet_ui" by (simp add: quiet_ui_def)
  note t = plan_four_phases [of quiet_ui sample_env two_day_state, OF h]
  from t d
  have "plan_text sample_env quiet_ui =
                ''Personalized 20-Day Plan for '' @ exam quiet_ui @ '':'' @ NL
                @ ''Days 1-5: Focus on strong subjects ('' @ strong_subjects quiet_ui @ '') + Basics & PYQs'' @ NL
                @ ''Days 6-10: Tackle weak subjects ('' @ weak_subjects quiet_ui @ '') + Drills'' @ NL
                @ ''Days 11-15: Mixed mocks + Review'' @ NL
                @ ''Days 16-20: Full revision + Rest'' @ NL
                @ NL @ ''Health Reminders:'' @ NL
                @ generator sample_env ''Generate 3 short wellness tips for a student studying 20 days for Olympiad, focusing on stress and health.''"
    by blast
  then have p: "plan_text sample_env quiet_ui =
        ''Personalized 20-Day Plan for IOQM:'' @ NL
        @ ''Days 1-5: Focus on strong subjects (Algebra) + Basics & PYQs'' @ NL
        @ ''Days 6-10: Tackle weak subjects (Number Theory) + Drills'' @ NL
        @ ''Days 11-15: Mixed mocks + Review'' @ NL
        @ ''Days 16-20: Full revision + Rest'' @ NL
        @ NL @ ''Health Reminders:'' @ NL @ ''Sleep well.''"
    by (simp add: quiet_ui_def sample_env_def)
  from t g have "\<exists>rest. shown (tab3 sample_env quiet_ui two_day_state) =
          shown two_day_state @ [Header ''Study Pathway Generator'',
           Text_area ''Your Plan'' (plan_text sample_env quiet_ui)] @ rest"
    by blast
  then have "\<exists>rest. shown (tab3 sample_env quiet_ui two_day_state) =
          [Header ''Study Pathway Generator'',
           Text_area ''Your Plan'' (plan_text sample_env quiet_ui)] @ rest"
    by (simp add: two_day_state_def)
  with h d g p show ?thesis by blast
qed

end
